theory Spec2Isabelle
  imports Main "HOL-Library.Code_Target_Numeral"
begin

section \<open>The Mars Rover core: data model\<close>

text \<open>
  The TypeScript sources type every coordinate and every grid dimension as \<open>number\<close>, an
  IEEE 754 double. The specification's data model makes them integers, and so does this
  development: a coordinate is an \<open>int\<close>, standing for the double of that value.
  Comparison and \<open>===\<close> are exact on doubles. Addition and subtraction are not: the
  exact result is rounded to the nearest double, and above \<open>2^53\<close> not every integer is
  a double.
\<close>

subsection \<open>The number type: rounding of integers to doubles\<close>

text \<open>
  \<open>ulp n\<close> is the distance between neighbouring doubles in the binade of \<open>n\<close>: 1 below
  \<open>2^53\<close>, 2 from \<open>2^53\<close> on, 4 from \<open>2^54\<close> on, and so on.
\<close>

fun ulp :: "nat \<Rightarrow> nat" where
  "ulp n = (if n < 2 ^ 53 then 1 else 2 * ulp (n div 2))"

declare ulp.simps [simp del]

text \<open>
  Rounding to the nearest double, a tie going to the double with the even significand.
  Doubles end below \<open>2^1024\<close>; the overflow to \<open>Infinity\<close> beyond is not modelled, and no
  sum of a double and 1 reaches it.
\<close>

definition round_double :: "int \<Rightarrow> int" where
  "round_double i =
     (let u = int (ulp (nat \<bar>i\<bar>)); q = i div u; r = i mod u
      in if 2 * r < u then q * u
         else if u < 2 * r then (q + 1) * u
         else if even q then q * u else (q + 1) * u)"

text \<open>
  \<open>Number.isSafeInteger\<close>: the integers of magnitude up to \<open>2^53 - 1\<close>, where the doubles
  are the integers.
\<close>

definition isSafeInteger :: "int \<Rightarrow> bool" where
  "isSafeInteger i \<longleftrightarrow> \<bar>i\<bar> \<le> 2 ^ 53 - 1"

text \<open>The operators \<open>+\<close> and \<open>-\<close> on integer-valued numbers.\<close>

definition js_add :: "int \<Rightarrow> int \<Rightarrow> int" where
  "js_add a b = round_double (a + b)"

definition js_sub :: "int \<Rightarrow> int \<Rightarrow> int" where
  "js_sub a b = round_double (a - b)"

subsection \<open>Direction (rover/Direction.ts)\<close>

text \<open>
  The interface \<open>Direction\<close> has four implementing classes without fields; a heading is
  identified by its class, so the four classes are the four constructors.
\<close>

datatype Direction = North | South | East | West

fun left :: "Direction \<Rightarrow> Direction" where
  "left North = West"
| "left South = East"
| "left East = North"
| "left West = South"

fun right :: "Direction \<Rightarrow> Direction" where
  "right North = East"
| "right South = West"
| "right East = South"
| "right West = North"

fun move :: "Direction \<Rightarrow> int \<Rightarrow> int \<Rightarrow> int \<times> int" where
  "move North px py = (px, js_add py 1)"
| "move South px py = (px, js_sub py 1)"
| "move East px py = (js_add px 1, py)"
| "move West px py = (js_sub px 1, py)"

fun name :: "Direction \<Rightarrow> string" where
  "name North = ''N''"
| "name South = ''S''"
| "name East = ''E''"
| "name West = ''W''"

subsection \<open>Grid components (grid/Cell.ts, grid/Obstacle.ts)\<close>

text \<open>
  Modelled from the spec: the abstract base class \<open>GridComponent\<close> (its file
  \<open>grid/GridComponent.ts\<close> is not among the sources). The specification knows two kinds
  of registered component, the obstacle and the non-obstacle cell, told apart by
  \<open>isObstacle()\<close>; these are the two subclasses \<open>Cell\<close> and \<open>Obstacle\<close> of the
  sources, each constructed from its coordinates \<open>x\<close> and \<open>y\<close>.
\<close>

datatype GridComponent = Cell int int | Obstacle int int

fun isObstacle :: "GridComponent \<Rightarrow> bool" where
  "isObstacle (Cell cx cy) = False"
| "isObstacle (Obstacle cx cy) = True"

text \<open>The fields \<open>x\<close> and \<open>y\<close> of a component, read by \<open>Grid.isBlocked\<close>.\<close>

fun component_x :: "GridComponent \<Rightarrow> int" where
  "component_x (Cell cx cy) = cx"
| "component_x (Obstacle cx cy) = cx"

fun component_y :: "GridComponent \<Rightarrow> int" where
  "component_y (Cell cx cy) = cy"
| "component_y (Obstacle cx cy) = cy"

subsection \<open>Grid (grid/Grid.ts)\<close>

record Grid =
  width :: int
  height :: int
  components :: "GridComponent list"

text \<open>The constructor \<open>new Grid(width, height)\<close>: no component is registered yet.\<close>

definition new_Grid :: "int \<Rightarrow> int \<Rightarrow> Grid" where
  "new_Grid w h = \<lparr>width = w, height = h, components = []\<rparr>"

text \<open>\<open>add\<close> pushes the component at the end of the array.\<close>

definition add :: "GridComponent \<Rightarrow> Grid \<Rightarrow> Grid" where
  "add c g = g\<lparr>components := components g @ [c]\<rparr>"

definition withinBounds :: "Grid \<Rightarrow> int \<Rightarrow> int \<Rightarrow> bool" where
  "withinBounds g px py \<longleftrightarrow> px \<ge> 0 \<and> py \<ge> 0 \<and> px < width g \<and> py < height g"

text \<open>\<open>Array.prototype.some\<close> is \<^const>\<open>list_ex\<close>.\<close>

definition isBlocked :: "Grid \<Rightarrow> int \<Rightarrow> int \<Rightarrow> bool" where
  "isBlocked g px py \<longleftrightarrow>
     list_ex (\<lambda>c. isObstacle c \<and> component_x c = px \<and> component_y c = py) (components g)"

subsection \<open>Number formatting in template literals\<close>

text \<open>
  A template literal formats a number with \<open>Number::toString\<close>. Strings are byte strings
  (UTF-8). \<open>nat_toString\<close> is the decimal numeral of a natural number.
\<close>

definition digit_char :: "nat \<Rightarrow> char" where
  "digit_char d = ''0123456789'' ! d"

fun nat_toString :: "nat \<Rightarrow> string" where
  "nat_toString n =
     (if n < 10 then [digit_char n] else nat_toString (n div 10) @ [digit_char (n mod 10)])"

declare nat_toString.simps [simp del]

text \<open>
  From \<open>2^53\<close> on, \<open>Number::toString\<close> prints the shortest digit string \<open>s\<close> that reads
  back as the same double, \<open>s \<times> 10^(n-k)\<close> with \<open>k\<close> digits. \<open>candidate m t\<close> looks for \<open>s\<close>
  among the two multiples of the power of ten \<open>t\<close> around \<open>m\<close>: it takes the one that reads
  back as \<open>m\<close>; of two, the one nearer to \<open>m\<close>; of two equally near, the even one.
\<close>

definition candidate :: "nat \<Rightarrow> nat \<Rightarrow> nat option" where
  "candidate m t =
     (let c0 = m div t; c1 = c0 + 1;
          v0 = (round_double (int (c0 * t)) = int m);
          v1 = (round_double (int (c1 * t)) = int m)
      in if v0 \<and> v1
         then (if m - c0 * t < c1 * t - m then Some c0
               else if c1 * t - m < m - c0 * t then Some c1
               else if even c0 then Some c0 else Some c1)
         else if v0 then Some c0
         else if v1 then Some c1
         else None)"

text \<open>
  The digits \<open>s\<close> and the exponent \<open>n\<close> of \<open>m\<close>: the least number of digits \<open>k\<close> that has
  a candidate. When the candidate is \<open>10^k\<close>, the digit string is 1 and \<open>n\<close> is one more.
  An integer that is not a double has no candidate; it is not a number of the program.
\<close>

definition shortest_digits :: "nat \<Rightarrow> (nat \<times> nat) option" where
  "shortest_digits m =
     (let D = length (nat_toString m)
      in case List.find (\<lambda>k. candidate m (10 ^ (D - k)) \<noteq> None) [1..<Suc D] of
           None \<Rightarrow> None
         | Some k \<Rightarrow>
             (case candidate m (10 ^ (D - k)) of
                None \<Rightarrow> None
              | Some c \<Rightarrow> if c = 10 ^ k then Some (1, Suc D) else Some (c, D)))"

text \<open>
  Up to \<open>n = 21\<close> the digits are followed by \<open>n - k\<close> zeros; beyond, the number is printed
  in exponent notation, as in \<open>1.1805916207174113e+21\<close>.
\<close>

definition big_toString :: "nat \<Rightarrow> string" where
  "big_toString m =
     (case shortest_digits m of
        None \<Rightarrow> nat_toString m
      | Some (s, n) \<Rightarrow>
          (let ds = nat_toString s
           in if n \<le> 21 then ds @ replicate (n - length ds) CHR ''0''
              else (case ds of
                      [] \<Rightarrow> []
                    | d # rest \<Rightarrow>
                        d # (if rest = [] then [] else CHR ''.'' # rest) @ ''e+'' @
                        nat_toString (n - 1))))"

text \<open>
  Below \<open>2^53\<close> every integer is a double with no other integer reading back as it, and
  \<open>Number::toString\<close> prints its decimal numeral.
\<close>

definition pos_toString :: "nat \<Rightarrow> string" where
  "pos_toString m = (if m < 2 ^ 53 then nat_toString m else big_toString m)"

definition toString :: "int \<Rightarrow> string" where
  "toString i = (if i < 0 then ''-'' @ pos_toString (nat (- i)) else pos_toString (nat i))"

subsection \<open>Rover (rover/Rover.ts)\<close>

text \<open>
  The rover holds its position, its heading and a reference to its grid. No method of
  the rover changes the grid, so the field holds the grid's value.
\<close>

record Rover =
  x :: int
  y :: int
  direction :: Direction
  grid :: Grid

definition new_Rover :: "int \<Rightarrow> int \<Rightarrow> Direction \<Rightarrow> Grid \<Rightarrow> Rover" where
  "new_Rover px py d g = \<lparr>x = px, y = py, direction = d, grid = g\<rparr>"

definition turnLeft :: "Rover \<Rightarrow> Rover" where
  "turnLeft r = r\<lparr>direction := left (direction r)\<rparr>"

definition turnRight :: "Rover \<Rightarrow> Rover" where
  "turnRight r = r\<lparr>direction := right (direction r)\<rparr>"

text \<open>
  The line a blocked move writes with \<open>console.log\<close>. It starts with the warning sign
  U+26A0 U+FE0F, six bytes in UTF-8.
\<close>

definition blocked_message :: "int \<Rightarrow> int \<Rightarrow> string" where
  "blocked_message nx ny =
     [CHR 0xE2, CHR 0x9A, CHR 0xA0, CHR 0xEF, CHR 0xB8, CHR 0x8F] @
     '' Movement blocked at ('' @ toString nx @ '', '' @ toString ny @ '')''"

text \<open>
  \<open>moveForward\<close> returns the rover after the call and the lines the call wrote to the
  console.
\<close>

definition moveForward :: "Rover \<Rightarrow> Rover \<times> string list" where
  "moveForward r =
     (case move (direction r) (x r) (y r) of (nx, ny) \<Rightarrow>
        if withinBounds (grid r) nx ny \<and> \<not> isBlocked (grid r) nx ny
        then (r\<lparr>x := nx, y := ny\<rparr>, [])
        else (r, [blocked_message nx ny]))"

definition report :: "Rover \<Rightarrow> string" where
  "report r =
     ''Rover is at ('' @ toString (x r) @ '', '' @ toString (y r) @ '') facing '' @
     name (direction r)"

subsection \<open>Commands (commands/*.ts)\<close>

text \<open>
  A command object holds a reference to its rover; \<open>execute\<close> calls the rover's method.
  The rover is passed to \<open>execute\<close> and returned with the lines written to the console.
\<close>

datatype Command = MoveCommand | TurnLeftCommand | TurnRightCommand

fun execute :: "Command \<Rightarrow> Rover \<Rightarrow> Rover \<times> string list" where
  "execute MoveCommand r = moveForward r"
| "execute TurnLeftCommand r = (turnLeft r, [])"
| "execute TurnRightCommand r = (turnRight r, [])"

subsection \<open>The driver (dist/index.js)\<close>

definition index_grid :: Grid where
  "index_grid = add (Obstacle 3 5) (add (Obstacle 2 2) (new_Grid 10 10))"

definition index_rover :: Rover where
  "index_rover = new_Rover 0 0 North index_grid"

definition commandMap :: "string \<Rightarrow> Command option" where
  "commandMap k =
     (if k = ''M'' then Some MoveCommand
      else if k = ''L'' then Some TurnLeftCommand
      else if k = ''R'' then Some TurnRightCommand
      else None)"

definition sequence :: "string list" where
  "sequence = [''M'', ''M'', ''R'', ''M'', ''L'', ''M'']"

text \<open>
  \<open>sequence.forEach(cmd => commandMap[cmd]().execute())\<close>, for any sequence of keys.
  The state is the rover and the lines written to the console so far. Where
  \<open>commandMap\<close> has no command for a key, the call \<open>commandMap[cmd]().execute()\<close> throws
  a \<open>TypeError\<close>, which ends the run.
\<close>

datatype js_error = TypeError

fun run_sequence :: "string list \<Rightarrow> Rover \<times> string list \<Rightarrow> js_error + Rover \<times> string list" where
  "run_sequence [] w = Inr w"
| "run_sequence (k # ks) (r, out) =
     (case commandMap k of
        None \<Rightarrow> Inl TypeError
      | Some c \<Rightarrow> (case execute c r of (r', ls) \<Rightarrow> run_sequence ks (r', out @ ls)))"

text \<open>
  The rest of the program, \<open>console.log(rover.report())\<close> after the loop: the lines on
  the console when the program ends, for any sequence of keys and any rover.
\<close>

definition index_js :: "string list \<Rightarrow> Rover \<Rightarrow> js_error + string list" where
  "index_js ks r =
     (case run_sequence ks (r, []) of
        Inl e \<Rightarrow> Inl e
      | Inr (r', out) \<Rightarrow> Inr (out @ [report r']))"

definition index_main :: "js_error + string list" where
  "index_main = index_js sequence index_rover"

section \<open>Auxiliary facts\<close>

subsection \<open>Arithmetic is exact on the safe integers\<close>

lemma ulp_safe: "n < 2 ^ 53 \<Longrightarrow> ulp n = 1"
  by (subst ulp.simps) simp

lemma ulp_2_53: "ulp (2 ^ 53) = 2"
  by (subst ulp.simps) (simp add: ulp_safe)

lemma round_double_safe:
  assumes "isSafeInteger i"
  shows "round_double i = i"
proof -
  from assms have "nat \<bar>i\<bar> < 2 ^ 53"
    by (simp add: isSafeInteger_def nat_less_iff)
  then have "ulp (nat \<bar>i\<bar>) = 1"
    by (rule ulp_safe)
  then show ?thesis
    by (simp add: round_double_def)
qed

lemma round_double_2_53: "round_double (2 ^ 53) = 2 ^ 53" "round_double (- (2 ^ 53)) = - (2 ^ 53)"
  using ulp_2_53 by (simp_all add: round_double_def)

lemma round_double_exact:
  assumes "\<bar>i\<bar> \<le> 2 ^ 53"
  shows "round_double i = i"
proof (cases "isSafeInteger i")
  case True
  then show ?thesis
    by (rule round_double_safe)
next
  case False
  with assms have "i = 2 ^ 53 \<or> i = - (2 ^ 53)"
    by (simp add: isSafeInteger_def) linarith
  then show ?thesis
    using round_double_2_53 by auto
qed

lemma js_add_safe: "isSafeInteger a \<Longrightarrow> js_add a 1 = a + 1"
  unfolding js_add_def by (rule round_double_exact) (simp add: isSafeInteger_def)

lemma js_sub_safe: "isSafeInteger a \<Longrightarrow> js_sub a 1 = a - 1"
  unfolding js_sub_def by (rule round_double_exact) (simp add: isSafeInteger_def)

lemma move_safe:
  "isSafeInteger py \<Longrightarrow> move North px py = (px, py + 1)"
  "isSafeInteger py \<Longrightarrow> move South px py = (px, py - 1)"
  "isSafeInteger px \<Longrightarrow> move East px py = (px + 1, py)"
  "isSafeInteger px \<Longrightarrow> move West px py = (px - 1, py)"
  by (simp_all add: js_add_safe js_sub_safe)


lemma js_add_2_53: "js_add (2 ^ 53) 1 = 2 ^ 53"
proof -
  have "ulp (2 ^ 53 + 1) = 2"
    by (subst ulp.simps) (simp add: ulp_safe)
  then show ?thesis
    by (simp add: js_add_def round_double_def)
qed

lemma isSafeInteger_numeral [simp]:
  "isSafeInteger 0" "isSafeInteger 1"
  "isSafeInteger (numeral k) \<longleftrightarrow> (numeral k :: int) \<le> 2 ^ 53 - 1"
  "isSafeInteger (- numeral k) \<longleftrightarrow> (numeral k :: int) \<le> 2 ^ 53 - 1"
  by (simp_all add: isSafeInteger_def)

subsection \<open>Number formatting is injective on the safe integers\<close>

lemma toString_safe:
  assumes "isSafeInteger i"
  shows "toString i = (if i < 0 then ''-'' @ nat_toString (nat (- i)) else nat_toString (nat i))"
proof -
  from assms have "nat (- i) < 2 ^ 53" and "nat i < 2 ^ 53"
    by (simp_all add: isSafeInteger_def nat_less_iff)
  then show ?thesis
    by (simp only: toString_def pos_toString_def if_True)
qed











subsection \<open>Grids, commands and the driver\<close>

lemma components_fold_add: "components (fold add cs g) = components g @ cs"
  by (induction cs arbitrary: g) (simp_all add: add_def)

lemma index_grid_eq: "index_grid = \<lparr>width = 10, height = 10, components = [Obstacle 2 2, Obstacle 3 5]\<rparr>"
  by (simp add: index_grid_def add_def new_Grid_def)

lemmas scenario_simps = index_rover_def new_Rover_def index_grid_eq moveForward_def turnLeft_def
  turnRight_def withinBounds_def isBlocked_def commandMap_def js_add_safe js_sub_safe

subsection \<open>One command, then a sequence of commands\<close>

lemma execute_grid: "grid (fst (execute c r)) = grid r"
  by (cases c) (simp_all add: turnLeft_def turnRight_def moveForward_def split: prod.splits)

lemma isBlocked_obstacle:
  "isBlocked g px py \<longleftrightarrow>
     \<not> (\<forall>c \<in> set (components g). isObstacle c \<longrightarrow> (component_x c, component_y c) \<noteq> (px, py))"
  by (auto simp: isBlocked_def list_ex_iff)

lemma execute_position:
  assumes "withinBounds (grid r) (x r) (y r)" and "\<not> isBlocked (grid r) (x r) (y r)"
  shows "withinBounds (grid r) (x (fst (execute c r))) (y (fst (execute c r))) \<and>
    \<not> isBlocked (grid r) (x (fst (execute c r))) (y (fst (execute c r)))"
  using assms
  by (cases c) (auto simp: turnLeft_def turnRight_def moveForward_def split: prod.splits)

lemma foldl_execute_position:
  assumes "withinBounds (grid r) (x r) (y r)" and "\<not> isBlocked (grid r) (x r) (y r)"
  shows "grid (foldl (\<lambda>s c. fst (execute c s)) r cs) = grid r \<and>
    withinBounds (grid r) (x (foldl (\<lambda>s c. fst (execute c s)) r cs))
      (y (foldl (\<lambda>s c. fst (execute c s)) r cs)) \<and>
    \<not> isBlocked (grid r) (x (foldl (\<lambda>s c. fst (execute c s)) r cs))
      (y (foldl (\<lambda>s c. fst (execute c s)) r cs))"
  using assms
proof (induction cs arbitrary: r)
  case Nil
  then show ?case by simp
next
  case (Cons c cs)
  from execute_position [OF Cons.prems, of c]
  have "withinBounds (grid (fst (execute c r))) (x (fst (execute c r))) (y (fst (execute c r)))"
    and "\<not> isBlocked (grid (fst (execute c r))) (x (fst (execute c r))) (y (fst (execute c r)))"
    by (simp_all add: execute_grid)
  from Cons.IH [OF this] show ?case
    by (simp add: execute_grid)
qed




lemma run_sequence_unknown_key:
  "k \<notin> {''M'', ''L'', ''R''} \<Longrightarrow> run_sequence (k # ks) (r, out) = Inl TypeError"
  by (simp add: commandMap_def)


section \<open>Direction\<close>

text \<open>
  C3, as amended: the rotation and translation tables of the four headings. \<open>left\<close> maps
  North to West, West to South, South to East and East to North; \<open>right\<close> maps North to
  East, East to South, South to West and West to North; \<open>move\<close> returns \<open>(x, y+1)\<close> for
  North and \<open>(x, y-1)\<close> for South when \<open>y\<close> is a safe integer, \<open>(x+1, y)\<close> for East and
  \<open>(x-1, y)\<close> for West when \<open>x\<close> is a safe integer; \<open>name\<close> returns the letters N, S, E, W
  for North, South, East, West.
\<close>

theorem direction_tables:
  "left North = West \<and> left West = South \<and> left South = East \<and> left East = North \<and>
   right North = East \<and> right East = South \<and> right South = West \<and> right West = North \<and>
   (isSafeInteger py \<longrightarrow>
      move North px py = (px, py + 1) \<and> move South px py = (px, py - 1)) \<and>
   (isSafeInteger px \<longrightarrow>
      move East px py = (px + 1, py) \<and> move West px py = (px - 1, py)) \<and>
   name North = ''N'' \<and> name South = ''S'' \<and> name East = ''E'' \<and> name West = ''W''"
  by (simp add: js_add_safe js_sub_safe)

text \<open>The four moves from \<open>(3, 4)\<close>, and from the largest and the least safe integer.\<close>

theorem direction_tables_witness:
  "isSafeInteger 3 \<and> isSafeInteger 4 \<and>
   move North 3 4 = (3, 5) \<and> move South 3 4 = (3, 3) \<and>
   move East 3 4 = (4, 4) \<and> move West 3 4 = (2, 4) \<and>
   isSafeInteger (2 ^ 53 - 1) \<and> move East (2 ^ 53 - 1) 0 = (2 ^ 53, 0) \<and>
   isSafeInteger (1 - 2 ^ 53) \<and> move South 0 (1 - 2 ^ 53) = (0, - (2 ^ 53))"
proof -
  have safe: "isSafeInteger 3" "isSafeInteger 4" "isSafeInteger (2 ^ 53 - 1)"
    "isSafeInteger (1 - 2 ^ 53)"
    by (simp_all add: isSafeInteger_def)
  with direction_tables [of 4 3] direction_tables [of 0 "2 ^ 53 - 1"]
    direction_tables [of "1 - 2 ^ 53" 0]
  show ?thesis
    by simp
qed

text \<open>
  The rows of \<open>move\<close> do not hold for every integer: from \<open>2^53\<close> on the doubles are two
  apart or more, and one step East of \<open>(2^53, 0)\<close> is \<open>(2^53, 0)\<close>, not \<open>(2^53 + 1, 0)\<close>.
\<close>

theorem move_east_counterexample:
  "move East (2 ^ 53) 0 = (2 ^ 53, 0) \<and> move East (2 ^ 53) 0 \<noteq> (2 ^ 53 + 1, 0)"
  using js_add_2_53 by simp

text \<open>
  C8: for every heading \<open>H\<close>, turning left and then right gives \<open>H\<close> back, and so does
  turning right and then left.
\<close>

theorem left_right_inverse: "right (left H) = H \<and> left (right H) = H"
  by (cases H) simp_all

section \<open>Grid\<close>

text \<open>
  C6: for all integers \<open>x\<close> and \<open>y\<close> and every grid constructed with width \<open>w\<close> and height
  \<open>h\<close>, \<open>withinBounds(x, y)\<close> is true if and only if \<open>0 \<le> x < w\<close> and \<open>0 \<le> y < h\<close>; adding
  components does not change it.
\<close>

theorem withinBounds_iff:
  "withinBounds (fold add cs (new_Grid w h)) px py \<longleftrightarrow> (0 \<le> px \<and> px < w) \<and> (0 \<le> py \<and> py < h)"
proof -
  have "width (fold add cs g) = width g \<and> height (fold add cs g) = height g" for g
    by (induction cs arbitrary: g) (simp_all add: add_def)
  then show ?thesis
    by (auto simp: withinBounds_def new_Grid_def)
qed

text \<open>
  C7: for all coordinates and every grid, \<open>isBlocked(x, y)\<close> is true if and only if some
  component registered with \<open>add\<close> whose \<open>isObstacle()\<close> is true has the coordinates
  \<open>(x, y)\<close>. Registering a non-obstacle cell never makes \<open>isBlocked\<close> true, so
  \<open>isBlocked\<close> is membership in the set of the registered obstacles.
\<close>

theorem isBlocked_iff:
  "(isBlocked (fold add cs (new_Grid w h)) px py \<longleftrightarrow>
      (\<exists>c \<in> set cs. isObstacle c \<and> component_x c = px \<and> component_y c = py)) \<and>
   (isBlocked (fold add cs (new_Grid w h)) px py \<longleftrightarrow> Obstacle px py \<in> set cs) \<and>
   (isBlocked (add (Cell cx cy) g) px py \<longleftrightarrow> isBlocked g px py)"
proof -
  have obstacle: "isObstacle c \<and> component_x c = px \<and> component_y c = py \<longleftrightarrow> c = Obstacle px py" for c
    by (cases c) auto
  show ?thesis
    by (simp add: isBlocked_def components_fold_add new_Grid_def add_def list_ex_iff obstacle)
qed

section \<open>Rover\<close>



text \<open>
  C9: \<open>turnLeft\<close> and \<open>turnRight\<close> never change the position, \<open>moveForward\<close> never
  changes the heading, whether or not the move commits; and a command that changes the
  position is a move whose candidate is within bounds and not blocked.
\<close>

theorem rover_frame:
  "x (turnLeft r) = x r \<and> y (turnLeft r) = y r \<and>
   x (turnRight r) = x r \<and> y (turnRight r) = y r \<and>
   direction (fst (moveForward r)) = direction r \<and>
   ((x (fst (execute c r)), y (fst (execute c r))) \<noteq> (x r, y r) \<longrightarrow>
      c = MoveCommand \<and>
      (x (fst (execute c r)), y (fst (execute c r))) = move (direction r) (x r) (y r) \<and>
      (case move (direction r) (x r) (y r) of (nx, ny) \<Rightarrow>
         withinBounds (grid r) nx ny \<and> \<not> isBlocked (grid r) nx ny))"
  by (cases c) (auto simp: turnLeft_def turnRight_def moveForward_def split: prod.splits if_splits)

text \<open>The first move of the driver's rover changes its position, from \<open>(0, 0)\<close> to \<open>(0, 1)\<close>.\<close>

theorem rover_frame_witness:
  "(x (fst (execute MoveCommand index_rover)), y (fst (execute MoveCommand index_rover))) = (0, 1) \<and>
   (x index_rover, y index_rover) = (0, 0) \<and>
   withinBounds index_grid 0 1 \<and> \<not> isBlocked index_grid 0 1"
proof -
  have changed: "(x (fst (execute MoveCommand index_rover)), y (fst (execute MoveCommand index_rover)))
      \<noteq> (x index_rover, y index_rover)"
    by (simp add: index_rover_def new_Rover_def moveForward_def index_grid_eq isBlocked_def
        withinBounds_def js_add_safe)
  have "move (direction index_rover) (x index_rover) (y index_rover) = (0, 1)"
    and "grid index_rover = index_grid" and "(x index_rover, y index_rover) = (0, 0)"
    by (simp_all add: index_rover_def new_Rover_def js_add_safe)
  with rover_frame [of index_rover MoveCommand] changed show ?thesis
    by simp
qed

text \<open>
  C2: the grid of a rover stays as it is while commands run. If the rover's initial
  position is within the bounds of its grid and is not the coordinate of an obstacle, then
  after every finite sequence of turns and moves its position is still within bounds and is
  not the coordinate of any obstacle.
\<close>

theorem rover_position_invariant:
  assumes "withinBounds (grid r) (x r) (y r)"
    and "\<forall>c \<in> set (components (grid r)).
           isObstacle c \<longrightarrow> (component_x c, component_y c) \<noteq> (x r, y r)"
    and "r' = foldl (\<lambda>s c. fst (execute c s)) r cs"
  shows "grid r' = grid r \<and> withinBounds (grid r) (x r') (y r') \<and>
    (\<forall>c \<in> set (components (grid r)).
       isObstacle c \<longrightarrow> (component_x c, component_y c) \<noteq> (x r', y r'))"
  using foldl_execute_position [of r cs] assms
  by (simp add: isBlocked_obstacle)

text \<open>
  From \<open>(2, 1)\<close> facing North on the driver's grid: the move is blocked by the obstacle at
  \<open>(2, 2)\<close>; after a left turn two moves reach \<open>(0, 1)\<close> and the next two are blocked by
  the western edge.
\<close>

theorem rover_position_invariant_witness:
  "withinBounds index_grid 2 1 \<and> Obstacle 2 1 \<notin> set (components index_grid) \<and>
   withinBounds index_grid
     (x (foldl (\<lambda>s c. fst (execute c s)) (new_Rover 2 1 North index_grid)
          [MoveCommand, TurnLeftCommand, MoveCommand, MoveCommand, MoveCommand, MoveCommand]))
     (y (foldl (\<lambda>s c. fst (execute c s)) (new_Rover 2 1 North index_grid)
          [MoveCommand, TurnLeftCommand, MoveCommand, MoveCommand, MoveCommand, MoveCommand])) \<and>
   foldl (\<lambda>s c. fst (execute c s)) (new_Rover 2 1 North index_grid)
     [MoveCommand, TurnLeftCommand, MoveCommand, MoveCommand, MoveCommand, MoveCommand] =
   new_Rover 0 1 West index_grid"
proof -
  let ?r = "new_Rover 2 1 North index_grid"
  let ?cs = "[MoveCommand, TurnLeftCommand, MoveCommand, MoveCommand, MoveCommand, MoveCommand]"
  have g: "grid ?r = index_grid" and p: "x ?r = 2" "y ?r = 1"
    by (simp_all add: new_Rover_def)
  have 1: "withinBounds (grid ?r) (x ?r) (y ?r)"
    by (simp add: new_Rover_def index_grid_eq withinBounds_def)
  have 2: "\<forall>c \<in> set (components (grid ?r)).
      isObstacle c \<longrightarrow> (component_x c, component_y c) \<noteq> (x ?r, y ?r)"
    by (simp add: new_Rover_def index_grid_eq)
  have 3: "foldl (\<lambda>s c. fst (execute c s)) ?r ?cs = new_Rover 0 1 West index_grid"
    by (simp add: new_Rover_def index_grid_eq moveForward_def turnLeft_def withinBounds_def
        isBlocked_def js_sub_safe js_add_safe)
  have "Obstacle 2 1 \<notin> set (components index_grid)"
    by (simp add: index_grid_eq)
  with rover_position_invariant [OF 1 2 refl, of ?cs] 1 3 show ?thesis
    by (simp add: g p)
qed



section \<open>The scenario of the driver\<close>

text \<open>
  C4: on the 10 by 10 grid with obstacles at \<open>(2, 2)\<close> and \<open>(3, 5)\<close>, the rover that starts
  at \<open>(0, 0)\<close> facing North and executes M, M, R, M, L, M is at \<open>(0, 1)\<close>, then at
  \<open>(0, 2)\<close>, then faces East, moves to \<open>(1, 2)\<close>, faces North and moves to \<open>(1, 3)\<close>; no
  move is blocked, and the final report, the only line on the console, is
  \<open>Rover is at (1, 3) facing N\<close>.
\<close>

theorem scenario_trace:
  "run_sequence (take 1 sequence) (index_rover, []) = Inr (new_Rover 0 1 North index_grid, []) \<and>
   run_sequence (take 2 sequence) (index_rover, []) = Inr (new_Rover 0 2 North index_grid, []) \<and>
   run_sequence (take 3 sequence) (index_rover, []) = Inr (new_Rover 0 2 East index_grid, []) \<and>
   run_sequence (take 4 sequence) (index_rover, []) = Inr (new_Rover 1 2 East index_grid, []) \<and>
   run_sequence (take 5 sequence) (index_rover, []) = Inr (new_Rover 1 2 North index_grid, []) \<and>
   run_sequence sequence (index_rover, []) = Inr (new_Rover 1 3 North index_grid, []) \<and>
   report (new_Rover 1 3 North index_grid) = ''Rover is at (1, 3) facing N'' \<and>
   index_main = Inr [''Rover is at (1, 3) facing N'']"
proof -
  have 1: "run_sequence (take 1 sequence) (index_rover, []) = Inr (new_Rover 0 1 North index_grid, [])"
    and 2: "run_sequence (take 2 sequence) (index_rover, []) = Inr (new_Rover 0 2 North index_grid, [])"
    and 3: "run_sequence (take 3 sequence) (index_rover, []) = Inr (new_Rover 0 2 East index_grid, [])"
    and 4: "run_sequence (take 4 sequence) (index_rover, []) = Inr (new_Rover 1 2 East index_grid, [])"
    and 5: "run_sequence (take 5 sequence) (index_rover, []) = Inr (new_Rover 1 2 North index_grid, [])"
    and final: "run_sequence sequence (index_rover, []) = Inr (new_Rover 1 3 North index_grid, [])"
    by (simp_all add: sequence_def scenario_simps)
  have rep: "report (new_Rover 1 3 North index_grid) = ''Rover is at (1, 3) facing N''"
    by (simp add: report_def new_Rover_def toString_safe nat_toString.simps digit_char_def)
  have "index_main = Inr [''Rover is at (1, 3) facing N'']"
    by (simp add: index_main_def index_js_def final rep)
  with 1 2 3 4 5 final rep show ?thesis
    by (intro conjI)
qed

text \<open>
  C5, as amended: on the same grid and from the same start, the sequence M, M, R, M, L, M
  ends at the position \<open>(1, 3)\<close>.
\<close>

theorem final_position_1_3:
  "map_sum id (\<lambda>(r, out). (x r, y r)) (run_sequence sequence (index_rover, [])) = Inr (1, 3)"
  by (simp add: sequence_def scenario_simps)

text \<open>
  The position \<open>(2, 2)\<close> is not where the run ends: it is the coordinate of an obstacle.
\<close>

theorem final_position_2_2_counterexample:
  "isBlocked index_grid 2 2 \<and>
   map_sum id (\<lambda>(r, out). (x r, y r)) (run_sequence sequence (index_rover, [])) \<noteq> Inr (2, 2)"
  by (simp add: sequence_def scenario_simps)

end
